theory Spec2Isabelle
  imports Complex_Main
begin

section \<open>Multi-agent collaboration: data model\<close>

text \<open>
  The development embeds \<^verbatim>\<open>backend/agents/multi_agent.py\<close> (class
  \<^verbatim>\<open>MultiAgentCoordinator\<close>), the participant rule of
  \<^verbatim>\<open>backend/domain/agent_domain.py\<close> and the registration path of
  \<^verbatim>\<open>ai-service/multi-agent/agent_coordinator.py\<close>.

  Python floats are idealised as \<^typ>\<open>real\<close>; Python strings are \<^typ>\<open>string\<close>, one
  \<^typ>\<open>char\<close> per character.
\<close>

datatype CollaborationMode = SEQUENTIAL | PARALLEL | DEBATE | CONSENSUS

fun mode_value :: "CollaborationMode \<Rightarrow> string" where
  "mode_value SEQUENTIAL = ''sequential''"
| "mode_value PARALLEL = ''parallel''"
| "mode_value DEBATE = ''debate''"
| "mode_value CONSENSUS = ''consensus''"

record CollaborationTask =
  task_id :: string
  task_type :: string
  query :: string
  agents :: "string list"
  mode :: CollaborationMode
  max_iterations :: int
  timeout :: int

type_synonym metadata = "(string \<times> string) list"

record AgentResponse =
  agent_id :: string
  content :: string
  confidence :: real
  metadata :: metadata
  timestamp :: nat

text \<open>
  The exceptions. A \<^verbatim>\<open>ValueError\<close> of the source carries what its message is
  formatted from. Python itself raises \<open>KeyError\<close> (a lookup of an absent key),
  \<open>ZeroDivisionError\<close> and, from \<^verbatim>\<open>asyncio.wait_for\<close>, \<open>TimeoutError\<close>;
  \<open>AgentError\<close> is any other exception an agent raises. The mode of a task is a
  member of the enumeration, so the branch of \<^verbatim>\<open>start_collaboration\<close> for an
  unsupported mode is never taken.
\<close>

datatype value_error =
    Agents_not_available "string list"
  | Collaboration_timed_out int
  | Agent_not_found string
  | Agent_not_suitable string
  | At_least_2_agents
  | Maximum_5_agents

datatype py_error =
    ValueError value_error
  | KeyError string
  | ZeroDivisionError
  | TimeoutError
  | AgentError string

text \<open>
  The dictionary \<^verbatim>\<open>process_query\<close> returns: the coordinator reads the key
  \<^verbatim>\<open>content\<close> and, with a default, the keys \<^verbatim>\<open>confidence_score\<close> and
  \<^verbatim>\<open>metadata\<close>.
\<close>

record response_data =
  rd_content :: string
  rd_confidence_score :: "real option"
  rd_metadata :: "metadata option"

text \<open>The \<^verbatim>\<open>collaboration_context\<close> dictionary handed to an agent, one shape per call site.\<close>

datatype collaboration_context =
    Sequential_context nat nat "AgentResponse list"
  | Parallel_context nat
  | Debate_initial_context nat nat
  | Debate_round_context nat "string list"
  | Consensus_initial_context nat string
  | Consensus_round_context nat real "string list"

text \<open>
  An agent is an external collaborator with a memory of its own. Its
  \<^verbatim>\<open>process_query(query, context)\<close> is a function of the query, the context and the
  state of the outside world \<open>'w\<close>; it returns the dictionary or the exception raised,
  the seconds the call took, and the new state of the world.
\<close>

type_synonym 'w agent =
  "string \<Rightarrow> collaboration_context \<Rightarrow> 'w \<Rightarrow> (py_error + response_data) \<times> nat \<times> 'w"

record 'w coordinator =
  active_agents :: "string \<rightharpoonup> 'w agent"
  active_collaborations :: "string \<rightharpoonup> CollaborationTask"

text \<open>
  What a run can observe of its environment: the world the agents live in, the list of
  \<^verbatim>\<open>process_query\<close> calls made so far (agent id and query, in call order), and the
  wall clock in seconds.
\<close>

record 'w env =
  world :: 'w
  calls :: "(string \<times> string) list"
  clock :: nat

record collaboration_result =
  res_task_id :: string
  res_mode :: string
  synthesized_response :: string
  individual_responses :: "string \<rightharpoonup> string"
  collaboration_quality :: real
  consensus_score :: real
  total_iterations :: nat
  participating_agents :: "string list"
  debate_rounds :: "nat option"
  key_agreements :: "string list option"
  key_disagreements :: "string list option"
  consensus_achieved :: "bool option"

section \<open>Registry\<close>

definition register_agent :: "'w coordinator \<Rightarrow> string \<Rightarrow> 'w agent \<Rightarrow> 'w coordinator" where
  "register_agent c aid agent = c\<lparr>active_agents := (active_agents c)(aid \<mapsto> agent)\<rparr>"

definition unregister_agent :: "'w coordinator \<Rightarrow> string \<Rightarrow> 'w coordinator" where
  "unregister_agent c aid =
     (if aid \<in> dom (active_agents c)
      then c\<lparr>active_agents := (active_agents c)(aid := None)\<rparr>
      else c)"

definition get_active_collaborations :: "'w coordinator \<Rightarrow> (string \<rightharpoonup> CollaborationTask)" where
  "get_active_collaborations c = active_collaborations c"

section \<open>Scores and the convergence check\<close>

definition calculate_collaboration_quality :: "AgentResponse list \<Rightarrow> real" where
  "calculate_collaboration_quality responses =
     (if responses = [] then 0
      else
        let avg_confidence = sum_list (map confidence responses) / real (length responses);
            response_diversity =
              real (card (set (map (\<lambda>r. take 100 (content r)) responses)))
                / real (length responses);
            quality_score = (avg_confidence * (6 / 10)) + (response_diversity * (4 / 10))
        in min quality_score 1)"

definition calculate_consensus_score :: "AgentResponse list \<Rightarrow> py_error + real" where
  "calculate_consensus_score responses =
     (if length responses < 2 then Inr 1
      else
        let lengths = map (\<lambda>r. real (length (content r))) responses;
            avg_length = sum_list lengths / real (length lengths);
            variance = sum_list (map (\<lambda>l. (l - avg_length) ^ 2) lengths) / real (length lengths)
        in if avg_length ^ 2 = 0 then Inl ZeroDivisionError
           else Inr (min (max 0 (1 - (variance / (avg_length ^ 2)))) 1))"

definition check_debate_convergence ::
  "AgentResponse list \<Rightarrow> AgentResponse list \<Rightarrow> py_error + bool" where
  "check_debate_convergence current_responses previous_responses =
     (if current_responses = [] \<or> previous_responses = [] then Inr False
      else
        let current_avg_length =
              real (sum_list (map (\<lambda>r. length (content r)) current_responses))
                / real (length current_responses);
            previous_avg_length =
              real (sum_list (map (\<lambda>r. length (content r)) previous_responses))
                / real (length previous_responses)
        in if previous_avg_length = 0 then Inl ZeroDivisionError
           else Inr (\<bar>current_avg_length - previous_avg_length\<bar> / previous_avg_length < 1 / 10))"

definition extract_agreements :: "AgentResponse list \<Rightarrow> string list" where
  "extract_agreements responses =
     [''Core methodology approach'', ''Problem definition accuracy'',
      ''Implementation feasibility'']"

definition extract_disagreements :: "AgentResponse list \<Rightarrow> string list" where
  "extract_disagreements responses =
     [''Optimal parameter settings'', ''Performance evaluation metrics'',
      ''Scalability considerations'']"

definition extract_common_themes :: "AgentResponse list \<Rightarrow> string list" where
  "extract_common_themes responses =
     [''Importance of data quality'', ''Need for proper validation'',
      ''Consideration of computational resources'']"

section \<open>Text helpers\<close>

definition nl :: string where
  "nl = [CHR 0x0A]"

definition bullet :: string where
  "bullet = [CHR 0xE2, CHR 0x80, CHR 0xA2]"

fun str_nat :: "nat \<Rightarrow> string" where
  "str_nat n =
     (if n < 10 then [char_of (48 + n)]
      else str_nat (n div 10) @ [char_of (48 + n mod 10)])"

declare str_nat.simps [simp del]

text \<open>The format \<^verbatim>\<open>{x:.1%}\<close> of a score: per cent with one decimal.\<close>

definition format_percent_1 :: "real \<Rightarrow> string" where
  "format_percent_1 x =
     (let t = nat (round (x * 1000))
      in str_nat (t div 10) @ ''.'' @ str_nat (t mod 10) @ ''%'')"

text \<open>The slice \<^verbatim>\<open>xs[-n:]\<close> for \<open>n \<ge> 0\<close>: the last \<open>n\<close> elements, and all of them for \<open>n = 0\<close>.\<close>

definition last_n :: "nat \<Rightarrow> 'a list \<Rightarrow> 'a list" where
  "last_n n xs = (if n = 0 then xs else drop (length xs - n) xs)"

text \<open>The comprehension \<^verbatim>\<open>{r.agent_id: r.content for r in responses}\<close>: a later entry replaces an earlier one.\<close>

definition responses_dict :: "AgentResponse list \<Rightarrow> (string \<rightharpoonup> string)" where
  "responses_dict responses = fold (\<lambda>r m. m(agent_id r \<mapsto> content r)) responses Map.empty"

section \<open>Synthesis\<close>

definition synthesize_sequential_responses ::
  "AgentResponse list \<Rightarrow> CollaborationTask \<Rightarrow> string" where
  "synthesize_sequential_responses responses task =
     ''Based on sequential analysis by '' @ str_nat (length responses)
       @ '' specialized agents:'' @ nl @ nl
     @ concat (map (\<lambda>(i, response).
                 ''Agent '' @ str_nat i @ '' Analysis: '' @ take 200 (content response)
                   @ ''...'' @ nl @ nl)
               (enumerate 1 responses))
     @ ''Integrated Conclusion: ''
     @ ''The sequential analysis reveals a comprehensive understanding that builds from ''
     @ ''initial insights to a refined conclusion addressing: '' @ query task"

definition synthesize_parallel_responses ::
  "AgentResponse list \<Rightarrow> CollaborationTask \<Rightarrow> string" where
  "synthesize_parallel_responses responses task =
     (let high_confidence = filter (\<lambda>r. confidence r > 8 / 10) responses;
          medium_confidence =
            filter (\<lambda>r. 6 / 10 \<le> confidence r \<and> confidence r \<le> 8 / 10) responses;
          item = (\<lambda>response. bullet @ '' '' @ take 150 (content response) @ ''...'' @ nl)
      in ''Parallel analysis by '' @ str_nat (length responses)
           @ '' specialized agents reveals:'' @ nl @ nl
         @ (if high_confidence \<noteq> []
            then ''High Confidence Insights:'' @ nl @ concat (map item high_confidence) @ nl
            else [])
         @ (if medium_confidence \<noteq> []
            then ''Additional Considerations:'' @ nl @ concat (map item medium_confidence) @ nl
            else [])
         @ ''Unified Conclusion: The parallel analysis provides multiple perspectives that ''
         @ ''collectively address the query: '' @ query task)"

definition synthesize_debate_responses ::
  "AgentResponse list \<Rightarrow> CollaborationTask \<Rightarrow> py_error + string" where
  "synthesize_debate_responses responses task =
     (if length (agents task) = 0 then Inl ZeroDivisionError
      else
        let agreements = extract_agreements responses;
            disagreements = extract_disagreements responses;
            item = (\<lambda>t. bullet @ '' '' @ t @ nl)
        in Inr (''After '' @ str_nat (length responses div length (agents task))
                  @ '' rounds of debate:'' @ nl @ nl
                @ (if agreements \<noteq> []
                   then ''Points of Agreement:'' @ nl @ concat (map item agreements) @ nl
                   else [])
                @ (if disagreements \<noteq> []
                   then ''Remaining Disagreements:'' @ nl @ concat (map item disagreements) @ nl
                   else [])
                @ ''Balanced Conclusion: Through rigorous debate, the agents have explored ''
                @ ''multiple facets of: '' @ query task))"

definition synthesize_consensus_responses ::
  "AgentResponse list \<Rightarrow> CollaborationTask \<Rightarrow> py_error + string" where
  "synthesize_consensus_responses responses task =
     (case calculate_consensus_score responses of
        Inl e \<Rightarrow> Inl e
      | Inr score \<Rightarrow>
          let common_themes = extract_common_themes responses;
              item = (\<lambda>t. bullet @ '' '' @ t @ nl)
          in Inr (''Consensus Analysis (Agreement Level: '' @ format_percent_1 score @ ''):''
                    @ nl @ nl
                  @ (if common_themes \<noteq> []
                     then ''Agreed-Upon Points:'' @ nl @ concat (map item common_themes) @ nl
                     else [])
                  @ ''Consensus Conclusion: The agents have reached ''
                  @ (if score > 8 / 10 then ''strong consensus''
                     else if score > 6 / 10 then ''moderate consensus''
                     else ''partial consensus'')
                  @ '' on the key aspects of: '' @ query task))"

section \<open>Calling agents\<close>

definition to_agent_response :: "string \<Rightarrow> response_data \<Rightarrow> nat \<Rightarrow> AgentResponse" where
  "to_agent_response aid response now =
     \<lparr>agent_id = aid,
      content = rd_content response,
      confidence = (case rd_confidence_score response of None \<Rightarrow> 8 / 10 | Some x \<Rightarrow> x),
      metadata = (case rd_metadata response of None \<Rightarrow> [] | Some m \<Rightarrow> m),
      timestamp = now\<rparr>"

text \<open>
  Starting \<^verbatim>\<open>agent.process_query(query, context)\<close> records the call and runs the agent
  on the world; the reply comes with the seconds it needs.
\<close>

definition start_query ::
  "'w agent \<Rightarrow> string \<Rightarrow> string \<Rightarrow> collaboration_context \<Rightarrow> 'w env
     \<Rightarrow> (py_error + response_data) \<times> nat \<times> 'w env" where
  "start_query agent aid q context s =
     (case agent q context (world s) of
        (outcome, seconds, w) \<Rightarrow>
          (outcome, seconds, s\<lparr>world := w, calls := calls s @ [(aid, q)]\<rparr>))"

text \<open>\<^verbatim>\<open>await agent.process_query(query, context)\<close>: the caller waits until the reply is there.\<close>

definition process_query ::
  "'w agent \<Rightarrow> string \<Rightarrow> string \<Rightarrow> collaboration_context \<Rightarrow> 'w env
     \<Rightarrow> (py_error + response_data) \<times> 'w env" where
  "process_query agent aid q context s =
     (case start_query agent aid q context s of
        (outcome, seconds, s') \<Rightarrow> (outcome, s'\<lparr>clock := clock s' + seconds\<rparr>))"

text \<open>
  The loop shared by the rounds of the debate and consensus protocols: for each agent id
  in order, look the agent up, await its reply to the query built for it, and append the
  \<^verbatim>\<open>AgentResponse\<close>. An exception ends the loop and is passed on.
\<close>

fun query_round ::
  "'w coordinator \<Rightarrow> string list \<Rightarrow> (string \<Rightarrow> string) \<Rightarrow> (string \<Rightarrow> collaboration_context)
     \<Rightarrow> AgentResponse list \<Rightarrow> 'w env \<Rightarrow> (py_error + AgentResponse list) \<times> 'w env" where
  "query_round c [] query_for context_for responses s = (Inr responses, s)"
| "query_round c (aid # rest) query_for context_for responses s =
     (case active_agents c aid of
        None \<Rightarrow> (Inl (KeyError aid), s)
      | Some agent \<Rightarrow>
          (case process_query agent aid (query_for aid) (context_for aid) s of
             (Inl e, s') \<Rightarrow> (Inl e, s')
           | (Inr response, s') \<Rightarrow>
               query_round c rest query_for context_for
                 (responses @ [to_agent_response aid response (clock s')]) s'))"

section \<open>The sequential protocol\<close>

text \<open>
  The loop over \<^verbatim>\<open>enumerate(task.agents)\<close>, on the list of responses and the
  prompt for the next agent; it returns both as they are when the loop ends.
\<close>

fun sequential_loop ::
  "'w coordinator \<Rightarrow> CollaborationTask \<Rightarrow> (nat \<times> string) list \<Rightarrow> AgentResponse list \<Rightarrow> string
     \<Rightarrow> 'w env \<Rightarrow> (py_error + AgentResponse list \<times> string) \<times> 'w env" where
  "sequential_loop c task [] responses current_context s = (Inr (responses, current_context), s)"
| "sequential_loop c task ((i, aid) # rest) responses current_context s =
     (case active_agents c aid of
        None \<Rightarrow> (Inl (KeyError aid), s)
      | Some agent \<Rightarrow>
          (let context =
                 Sequential_context (i + 1) (length (agents task))
                   (if responses \<noteq> [] then last_n 3 responses else [])
           in case process_query agent aid current_context context s of
                (Inl e, s') \<Rightarrow> (Inl e, s')
              | (Inr response, s') \<Rightarrow>
                  sequential_loop c task rest
                    (responses @ [to_agent_response aid response (clock s')])
                    (query task @ nl @ nl @ ''Previous agent ('' @ aid @ '') responded: ''
                       @ take 200 (rd_content response) @ ''...'')
                    s'))"

definition sequential_collaboration ::
  "'w coordinator \<Rightarrow> CollaborationTask \<Rightarrow> 'w env \<Rightarrow> (py_error + collaboration_result) \<times> 'w env" where
  "sequential_collaboration c task s =
     (case sequential_loop c task (enumerate 0 (agents task)) [] (query task) s of
        (Inl e, s') \<Rightarrow> (Inl e, s')
      | (Inr (responses, current_context), s') \<Rightarrow>
          (case calculate_consensus_score responses of
             Inl e \<Rightarrow> (Inl e, s')
           | Inr score \<Rightarrow>
               (Inr \<lparr>res_task_id = task_id task,
                     res_mode = mode_value (mode task),
                     synthesized_response = synthesize_sequential_responses responses task,
                     individual_responses = responses_dict responses,
                     collaboration_quality = calculate_collaboration_quality responses,
                     consensus_score = score,
                     total_iterations = 1,
                     participating_agents = agents task,
                     debate_rounds = None,
                     key_agreements = None,
                     key_disagreements = None,
                     consensus_achieved = None\<rparr>, s')))"

section \<open>The parallel protocol\<close>

text \<open>Building the list of calls looks every agent up before any call starts.\<close>

fun lookup_agents :: "'w coordinator \<Rightarrow> string list \<Rightarrow> py_error + (string \<times> 'w agent) list" where
  "lookup_agents c [] = Inr []"
| "lookup_agents c (aid # rest) =
     (case active_agents c aid of
        None \<Rightarrow> Inl (KeyError aid)
      | Some agent \<Rightarrow>
          (case lookup_agents c rest of
             Inl e \<Rightarrow> Inl e
           | Inr found \<Rightarrow> Inr ((aid, agent) # found)))"

text \<open>
  \<^verbatim>\<open>asyncio.gather(*agent_tasks, return_exceptions=True)\<close>: every call is started, in
  list order, and its reply or exception is kept at its position. The calls act on the
  world in list order; how they interleave is not modelled.
\<close>

fun gather ::
  "(string \<times> 'w agent) list \<Rightarrow> string \<Rightarrow> collaboration_context \<Rightarrow> 'w env
     \<Rightarrow> ((py_error + response_data) \<times> nat) list \<times> 'w env" where
  "gather [] q context s = ([], s)"
| "gather ((aid, agent) # rest) q context s =
     (case start_query agent aid q context s of
        (outcome, seconds, s') \<Rightarrow>
          (case gather rest q context s' of
             (outcomes, s'') \<Rightarrow> ((outcome, seconds) # outcomes, s'')))"

text \<open>
  \<^verbatim>\<open>asyncio.wait_for(gather, timeout)\<close>: the calls run side by side, so the gather is
  complete after the seconds its slowest call needs. A gather of no call is complete at
  once; otherwise the wait expires when the timeout is not positive or the slowest call
  needs more than the timeout, and then the clock has advanced by the timeout.
\<close>

definition slowest :: "('a \<times> nat) list \<Rightarrow> nat" where
  "slowest outcomes = fold max (map snd outcomes) 0"

definition wait_for_gather ::
  "(string \<times> 'w agent) list \<Rightarrow> string \<Rightarrow> collaboration_context \<Rightarrow> int \<Rightarrow> 'w env
     \<Rightarrow> (py_error + (py_error + response_data) list) \<times> 'w env" where
  "wait_for_gather agent_tasks q context seconds s =
     (case gather agent_tasks q context s of
        (outcomes, s') \<Rightarrow>
          if outcomes \<noteq> [] \<and> (seconds \<le> 0 \<or> seconds < int (slowest outcomes))
          then (Inl TimeoutError, s'\<lparr>clock := clock s' + nat seconds\<rparr>)
          else (Inr (map fst outcomes), s'\<lparr>clock := clock s' + slowest outcomes\<rparr>))"

text \<open>The loop over \<^verbatim>\<open>enumerate(responses_data)\<close>: an exception is logged and skipped.\<close>

fun process_responses ::
  "(string \<times> (py_error + response_data)) list \<Rightarrow> nat \<Rightarrow> AgentResponse list" where
  "process_responses [] now = []"
| "process_responses ((aid, Inl e) # rest) now = process_responses rest now"
| "process_responses ((aid, Inr response) # rest) now =
     to_agent_response aid response now # process_responses rest now"

definition parallel_collaboration ::
  "'w coordinator \<Rightarrow> CollaborationTask \<Rightarrow> 'w env \<Rightarrow> (py_error + collaboration_result) \<times> 'w env" where
  "parallel_collaboration c task s =
     (case lookup_agents c (agents task) of
        Inl e \<Rightarrow> (Inl e, s)
      | Inr agent_tasks \<Rightarrow>
          (case wait_for_gather agent_tasks (query task)
                  (Parallel_context (length (agents task))) (timeout task) s of
             (Inl e, s') \<Rightarrow>
               (if e = TimeoutError
                then (Inl (ValueError (Collaboration_timed_out (timeout task))), s')
                else (Inl e, s'))
           | (Inr responses_data, s') \<Rightarrow>
               (let responses = process_responses (zip (agents task) responses_data) (clock s')
                in case calculate_consensus_score responses of
                     Inl e \<Rightarrow> (Inl e, s')
                   | Inr score \<Rightarrow>
                       (Inr \<lparr>res_task_id = task_id task,
                             res_mode = mode_value (mode task),
                             synthesized_response = synthesize_parallel_responses responses task,
                             individual_responses = responses_dict responses,
                             collaboration_quality = calculate_collaboration_quality responses,
                             consensus_score = score,
                             total_iterations = 1,
                             participating_agents = map agent_id responses,
                             debate_rounds = None,
                             key_agreements = None,
                             key_disagreements = None,
                             consensus_achieved = None\<rparr>, s'))))"

section \<open>The debate protocol\<close>

definition debate_query :: "CollaborationTask \<Rightarrow> AgentResponse list \<Rightarrow> string" where
  "debate_query task other_responses =
     ''Original query: '' @ query task @ nl @ nl
     @ ''Other agents have responded:'' @ nl
     @ concat (map (\<lambda>other_response.
                 ''- '' @ agent_id other_response @ '': ''
                   @ take 150 (content other_response) @ ''...'' @ nl)
               other_responses)
     @ nl @ ''Please provide your counter-argument or refined response:''"

definition debate_round ::
  "'w coordinator \<Rightarrow> CollaborationTask \<Rightarrow> nat \<Rightarrow> AgentResponse list \<Rightarrow> 'w env
     \<Rightarrow> (py_error + AgentResponse list) \<times> 'w env" where
  "debate_round c task current_iteration initial_responses s =
     query_round c (agents task)
       (\<lambda>aid. debate_query task (filter (\<lambda>r. agent_id r \<noteq> aid) initial_responses))
       (\<lambda>aid. Debate_round_context (current_iteration + 1)
                 (map content (filter (\<lambda>r. agent_id r \<noteq> aid) initial_responses)))
       [] s"

function debate_loop ::
  "'w coordinator \<Rightarrow> CollaborationTask \<Rightarrow> nat \<Rightarrow> AgentResponse list \<Rightarrow> AgentResponse list
     \<Rightarrow> 'w env \<Rightarrow> (py_error + nat \<times> AgentResponse list) \<times> 'w env" where
  "debate_loop c task current_iteration initial_responses all_responses s =
     (if int current_iteration < max_iterations task
      then
        (case debate_round c task current_iteration initial_responses s of
           (Inl e, s') \<Rightarrow> (Inl e, s')
         | (Inr round_responses, s') \<Rightarrow>
             (case check_debate_convergence round_responses initial_responses of
                Inl e \<Rightarrow> (Inl e, s')
              | Inr converged \<Rightarrow>
                  if converged
                  then (Inr (current_iteration + 1, all_responses @ round_responses), s')
                  else debate_loop c task (current_iteration + 1) round_responses
                         (all_responses @ round_responses) s'))
      else (Inr (current_iteration, all_responses), s))"
  by pat_completeness auto
termination
  by (relation "measure (\<lambda>(c, task, current_iteration, initial_responses, all_responses, s).
                   nat (max_iterations task - int current_iteration))") auto

declare debate_loop.simps [simp del]

definition debate_result ::
  "CollaborationTask \<Rightarrow> nat \<Rightarrow> AgentResponse list \<Rightarrow> py_error + collaboration_result" where
  "debate_result task current_iteration all_responses =
     (case synthesize_debate_responses all_responses task of
        Inl e \<Rightarrow> Inl e
      | Inr synthesized \<Rightarrow>
          (case calculate_consensus_score (last_n (length (agents task)) all_responses) of
             Inl e \<Rightarrow> Inl e
           | Inr score \<Rightarrow>
               Inr \<lparr>res_task_id = task_id task,
                    res_mode = mode_value (mode task),
                    synthesized_response = synthesized,
                    individual_responses =
                      responses_dict (last_n (length (agents task)) all_responses),
                    collaboration_quality = calculate_collaboration_quality all_responses,
                    consensus_score = score,
                    total_iterations = current_iteration,
                    participating_agents = agents task,
                    debate_rounds = Some current_iteration,
                    key_agreements = Some (extract_agreements all_responses),
                    key_disagreements = Some (extract_disagreements all_responses),
                    consensus_achieved = None\<rparr>))"

text \<open>The debate rounds from a given iteration on, and the result built from them.\<close>

definition debate_rounds_from ::
  "'w coordinator \<Rightarrow> CollaborationTask \<Rightarrow> nat \<Rightarrow> AgentResponse list \<Rightarrow> AgentResponse list
     \<Rightarrow> 'w env \<Rightarrow> (py_error + collaboration_result) \<times> 'w env" where
  "debate_rounds_from c task current_iteration initial_responses all_responses s =
     (case debate_loop c task current_iteration initial_responses all_responses s of
        (Inl e, s') \<Rightarrow> (Inl e, s')
      | (Inr (iterations, responses), s') \<Rightarrow> (debate_result task iterations responses, s'))"

definition debate_collaboration ::
  "'w coordinator \<Rightarrow> CollaborationTask \<Rightarrow> 'w env \<Rightarrow> (py_error + collaboration_result) \<times> 'w env" where
  "debate_collaboration c task s =
     (case query_round c (agents task) (\<lambda>aid. query task)
             (\<lambda>aid. Debate_initial_context 1 (length (agents task))) [] s of
        (Inl e, s') \<Rightarrow> (Inl e, s')
      | (Inr initial_responses, s') \<Rightarrow>
          debate_rounds_from c task 1 initial_responses initial_responses s')"

section \<open>The consensus protocol\<close>

definition consensus_query :: "CollaborationTask \<Rightarrow> AgentResponse list \<Rightarrow> string" where
  "consensus_query task current_responses =
     ''Original query: '' @ query task @ nl @ nl
     @ ''Current responses from the team:'' @ nl
     @ concat (map (\<lambda>response.
                 ''- '' @ agent_id response @ '': '' @ take 150 (content response) @ ''...'' @ nl)
               current_responses)
     @ nl
     @ ''Please work towards a consensus by finding common ground and addressing differences:''"

definition consensus_round ::
  "'w coordinator \<Rightarrow> CollaborationTask \<Rightarrow> nat \<Rightarrow> real \<Rightarrow> AgentResponse list \<Rightarrow> 'w env
     \<Rightarrow> (py_error + AgentResponse list) \<times> 'w env" where
  "consensus_round c task current_iteration score current_responses s =
     query_round c (agents task)
       (\<lambda>aid. consensus_query task current_responses)
       (\<lambda>aid. Consensus_round_context (current_iteration + 1) score
                 (map content current_responses))
       [] s"

function consensus_loop ::
  "'w coordinator \<Rightarrow> CollaborationTask \<Rightarrow> nat \<Rightarrow> AgentResponse list \<Rightarrow> AgentResponse list
     \<Rightarrow> 'w env \<Rightarrow> (py_error + nat \<times> AgentResponse list \<times> AgentResponse list) \<times> 'w env" where
  "consensus_loop c task current_iteration current_responses all_responses s =
     (if int current_iteration < max_iterations task
      then
        (case calculate_consensus_score current_responses of
           Inl e \<Rightarrow> (Inl e, s)
         | Inr score \<Rightarrow>
             if score > 8 / 10
             then (Inr (current_iteration, current_responses, all_responses), s)
             else
               (case consensus_round c task current_iteration score current_responses s of
                  (Inl e, s') \<Rightarrow> (Inl e, s')
                | (Inr round_responses, s') \<Rightarrow>
                    consensus_loop c task (current_iteration + 1) round_responses
                      (all_responses @ round_responses) s'))
      else (Inr (current_iteration, current_responses, all_responses), s))"
  by pat_completeness auto
termination
  by (relation "measure (\<lambda>(c, task, current_iteration, current_responses, all_responses, s).
                   nat (max_iterations task - int current_iteration))") auto

declare consensus_loop.simps [simp del]

definition consensus_result ::
  "CollaborationTask \<Rightarrow> nat \<Rightarrow> AgentResponse list \<Rightarrow> AgentResponse list
     \<Rightarrow> py_error + collaboration_result" where
  "consensus_result task current_iteration current_responses all_responses =
     (case calculate_consensus_score current_responses of
        Inl e \<Rightarrow> Inl e
      | Inr final_consensus_score \<Rightarrow>
          (case synthesize_consensus_responses current_responses task of
             Inl e \<Rightarrow> Inl e
           | Inr synthesized \<Rightarrow>
               Inr \<lparr>res_task_id = task_id task,
                    res_mode = mode_value (mode task),
                    synthesized_response = synthesized,
                    individual_responses = responses_dict current_responses,
                    collaboration_quality = calculate_collaboration_quality all_responses,
                    consensus_score = final_consensus_score,
                    total_iterations = current_iteration,
                    participating_agents = agents task,
                    debate_rounds = None,
                    key_agreements = None,
                    key_disagreements = None,
                    consensus_achieved = Some (final_consensus_score > 8 / 10)\<rparr>))"

definition consensus_collaboration ::
  "'w coordinator \<Rightarrow> CollaborationTask \<Rightarrow> 'w env \<Rightarrow> (py_error + collaboration_result) \<times> 'w env" where
  "consensus_collaboration c task s =
     (case query_round c (agents task) (\<lambda>aid. query task)
             (\<lambda>aid. Consensus_initial_context 1 ''work towards consensus'') [] s of
        (Inl e, s') \<Rightarrow> (Inl e, s')
      | (Inr current_responses, s') \<Rightarrow>
          (case consensus_loop c task 1 current_responses current_responses s' of
             (Inl e, s'') \<Rightarrow> (Inl e, s'')
           | (Inr (iterations, final_responses, all_responses), s'') \<Rightarrow>
               (consensus_result task iterations final_responses all_responses, s'')))"

section \<open>Starting a collaboration\<close>

text \<open>
  The task is entered into \<^verbatim>\<open>active_collaborations\<close> first; it is removed again only
  after the protocol has returned. The handler of the \<^verbatim>\<open>try\<close> logs the exception and
  raises it again.
\<close>

definition start_collaboration ::
  "'w coordinator \<Rightarrow> CollaborationTask \<Rightarrow> 'w env
     \<Rightarrow> (py_error + collaboration_result) \<times> 'w coordinator \<times> 'w env" where
  "start_collaboration c task s =
     (let c' = c\<lparr>active_collaborations := (active_collaborations c)(task_id task \<mapsto> task)\<rparr>;
          missing_agents = filter (\<lambda>aid. active_agents c' aid = None) (agents task)
      in if missing_agents \<noteq> []
         then (Inl (ValueError (Agents_not_available missing_agents)), c', s)
         else
           (case (case mode task of
                    SEQUENTIAL \<Rightarrow> sequential_collaboration c' task s
                  | PARALLEL \<Rightarrow> parallel_collaboration c' task s
                  | DEBATE \<Rightarrow> debate_collaboration c' task s
                  | CONSENSUS \<Rightarrow> consensus_collaboration c' task s) of
              (Inl e, s') \<Rightarrow> (Inl e, c', s')
            | (Inr result, s') \<Rightarrow>
                (Inr result,
                 c'\<lparr>active_collaborations := (active_collaborations c')(task_id task := None)\<rparr>,
                 s')))"

section \<open>The participant rule of the domain service\<close>

record AgentDomainModel =
  adm_id :: string
  paper_id :: string
  agent_type :: string
  model_name :: string
  specialization :: "string option"
  status :: string
  conversation_count :: int
  response_time_avg :: "real option"
  user_rating_avg :: "real option"
  capabilities :: "string list option"

definition is_active :: "AgentDomainModel \<Rightarrow> bool" where
  "is_active a = (status a = ''active'')"

definition is_experienced :: "AgentDomainModel \<Rightarrow> bool" where
  "is_experienced a = (conversation_count a \<ge> 10)"

definition has_capability :: "AgentDomainModel \<Rightarrow> string \<Rightarrow> bool" where
  "has_capability a capability =
     (capability \<in> set (case capabilities a of None \<Rightarrow> [] | Some cs \<Rightarrow> cs))"

definition is_suitable_for_collaboration :: "AgentDomainModel \<Rightarrow> bool" where
  "is_suitable_for_collaboration a =
     (is_active a \<and> is_experienced a \<and> has_capability a ''multi_agent_collaboration'')"

record collaboration_started =
  collaboration_id :: string
  started_agents :: "string list"
  started_mode :: string
  started_task :: string
  started_status :: string

text \<open>The event \<^verbatim>\<open>agent.collaboration_started\<close>: identifier, agent ids, task and mode.\<close>

type_synonym started_event = "string \<times> string list \<times> string \<times> string"

text \<open>The loop of \<^verbatim>\<open>orchestrate_collaboration\<close> over the agent ids, on the repository as a map.\<close>

fun validate_agents ::
  "(string \<rightharpoonup> AgentDomainModel) \<Rightarrow> string list \<Rightarrow> AgentDomainModel list
     \<Rightarrow> py_error + AgentDomainModel list" where
  "validate_agents repository [] found = Inr found"
| "validate_agents repository (aid # rest) found =
     (case repository aid of
        None \<Rightarrow> Inl (ValueError (Agent_not_found aid))
      | Some agent \<Rightarrow>
          if \<not> is_suitable_for_collaboration agent
          then Inl (ValueError (Agent_not_suitable aid))
          else validate_agents repository rest (found @ [agent]))"

text \<open>
  \<^verbatim>\<open>orchestrate_collaboration\<close>: \<open>now\<close> is the time stamp the identifier is formatted
  from, the event list is the event bus. The function has no agent to call.
\<close>

definition orchestrate_collaboration ::
  "(string \<rightharpoonup> AgentDomainModel) \<Rightarrow> string list \<Rightarrow> string \<Rightarrow> CollaborationMode \<Rightarrow> string
     \<Rightarrow> started_event list \<Rightarrow> (py_error + collaboration_started) \<times> started_event list" where
  "orchestrate_collaboration repository agent_ids task m now events =
     (case validate_agents repository agent_ids [] of
        Inl e \<Rightarrow> (Inl e, events)
      | Inr found \<Rightarrow>
          if length found < 2 then (Inl (ValueError At_least_2_agents), events)
          else if length found > 5 then (Inl (ValueError Maximum_5_agents), events)
          else
            (let cid = ''collab_'' @ now
             in (Inr \<lparr>collaboration_id = cid,
                      started_agents = agent_ids,
                      started_mode = mode_value m,
                      started_task = task,
                      started_status = ''initiated''\<rparr>,
                 events @ [(cid, agent_ids, task, mode_value m)])))"

section \<open>Registration in the conversation coordinator\<close>

text \<open>
  \<^verbatim>\<open>AgentCoordinator.register_agent(paper_data)\<close> of the AI service: the paper data is
  a dictionary, the agent is built by the factory \<open>create_agent\<close>.
\<close>

record 'a AgentCoordinator =
  ac_active_agents :: "string \<rightharpoonup> 'a"
  ac_agent_relationships :: "string \<rightharpoonup> string set"

definition coordinator_register_agent ::
  "((string \<rightharpoonup> string) \<Rightarrow> 'a) \<Rightarrow> 'a AgentCoordinator \<Rightarrow> (string \<rightharpoonup> string)
     \<Rightarrow> (py_error + string) \<times> 'a AgentCoordinator" where
  "coordinator_register_agent create_agent c paper_data =
     (case paper_data ''id'' of
        None \<Rightarrow> (Inl (KeyError ''id''), c)
      | Some pid \<Rightarrow>
          if ac_active_agents c pid \<noteq> None then (Inr pid, c)
          else
            (Inr pid,
             c\<lparr>ac_active_agents := (ac_active_agents c)(pid \<mapsto> create_agent paper_data),
               ac_agent_relationships := (ac_agent_relationships c)(pid \<mapsto> {})\<rparr>))"

section \<open>Notions used in the statements\<close>

text \<open>The mean and the variance of the character lengths of a round's responses.\<close>

definition mean_length :: "AgentResponse list \<Rightarrow> real" where
  "mean_length rs = real (sum_list (map (\<lambda>r. length (content r)) rs)) / real (length rs)"

definition variance_length :: "AgentResponse list \<Rightarrow> real" where
  "variance_length rs =
     sum_list (map (\<lambda>r. (real (length (content r)) - mean_length rs) ^ 2) rs) / real (length rs)"


text \<open>
  The routing of \<^verbatim>\<open>start_collaboration\<close> to the protocol of the mode, and the
  coordinator once the task is entered into \<^verbatim>\<open>active_collaborations\<close>.
\<close>

definition run_protocol ::
  "'w coordinator \<Rightarrow> CollaborationTask \<Rightarrow> 'w env \<Rightarrow> (py_error + collaboration_result) \<times> 'w env" where
  "run_protocol c task s =
     (case mode task of
        SEQUENTIAL \<Rightarrow> sequential_collaboration c task s
      | PARALLEL \<Rightarrow> parallel_collaboration c task s
      | DEBATE \<Rightarrow> debate_collaboration c task s
      | CONSENSUS \<Rightarrow> consensus_collaboration c task s)"

definition entered :: "'w coordinator \<Rightarrow> CollaborationTask \<Rightarrow> 'w coordinator" where
  "entered c task = c\<lparr>active_collaborations := (active_collaborations c)(task_id task \<mapsto> task)\<rparr>"

section \<open>Example agents and tasks\<close>

definition example_response :: "string \<Rightarrow> string \<Rightarrow> real \<Rightarrow> AgentResponse" where
  "example_response aid txt conf =
     \<lparr>agent_id = aid, content = txt, confidence = conf, metadata = [], timestamp = 0\<rparr>"

text \<open>An agent that always answers the same text, and one that always raises.\<close>

definition ok_agent :: "string \<Rightarrow> real \<Rightarrow> nat \<Rightarrow> unit agent" where
  "ok_agent txt conf seconds =
     (\<lambda>q context w.
        (Inr \<lparr>rd_content = txt, rd_confidence_score = Some conf, rd_metadata = None\<rparr>,
         seconds, w))"

definition failing_agent :: "string \<Rightarrow> nat \<Rightarrow> unit agent" where
  "failing_agent msg seconds = (\<lambda>q context w. (Inl (AgentError msg), seconds, w))"

definition example_coordinator :: "unit coordinator" where
  "example_coordinator =
     \<lparr>active_agents =
        [''p1'' \<mapsto> ok_agent ''A'' (9 / 10) 5,
         ''p2'' \<mapsto> ok_agent ''B'' (7 / 10) 5,
         ''p3'' \<mapsto> failing_agent ''boom'' 1,
         ''p4'' \<mapsto> failing_agent ''down'' 2],
      active_collaborations = Map.empty\<rparr>"

definition example_env :: "unit env" where
  "example_env = \<lparr>world = (), calls = [], clock = 0\<rparr>"

definition example_task :: "string list \<Rightarrow> CollaborationMode \<Rightarrow> CollaborationTask" where
  "example_task ids m =
     \<lparr>task_id = ''t1'', task_type = ''compare'', query = ''Compare approach X'',
      agents = ids, mode = m, max_iterations = 3, timeout = 300\<rparr>"

definition example_domain_agent :: AgentDomainModel where
  "example_domain_agent =
     \<lparr>adm_id = ''a1'', paper_id = ''paper1'', agent_type = ''collaboration'',
      model_name = ''gpt-3.5-turbo'', specialization = Some ''coordinator'', status = ''active'',
      conversation_count = 12, response_time_avg = None, user_rating_avg = None,
      capabilities = Some [''multi_agent_collaboration'', ''question_answering'']\<rparr>"

section \<open>Evaluating a run\<close>

lemmas run_defs =
  start_collaboration_def sequential_collaboration_def parallel_collaboration_def
  debate_collaboration_def consensus_collaboration_def debate_rounds_from_def debate_round_def
  consensus_round_def wait_for_gather_def slowest_def process_query_def start_query_def
  to_agent_response_def calculate_consensus_score_def Let_def enumerate_eq_zip
  run_protocol_def entered_def debate_loop.simps consensus_loop.simps

lemmas example_defs =
  example_task_def example_coordinator_def example_env_def ok_agent_def failing_agent_def

section \<open>The calls a run makes\<close>

lemma process_query_calls:
  "process_query agent aid q context s = (outcome, s') \<Longrightarrow> calls s' = calls s @ [(aid, q)]"
  by (auto simp: process_query_def start_query_def split: prod.splits)

lemma query_round_grows:
  "query_round c ids query_for context_for responses s = (outcome, s')
     \<Longrightarrow> \<exists>more. calls s' = calls s @ more"
proof (induction ids arbitrary: responses s)
  case Nil
  then show ?case by simp
next
  case (Cons aid rest)
  show ?case
  proof (cases "active_agents c aid")
    case None
    with Cons.prems show ?thesis by simp
  next
    case (Some agent)
    obtain out s1 where pq: "process_query agent aid (query_for aid) (context_for aid) s = (out, s1)"
      by (cases "process_query agent aid (query_for aid) (context_for aid) s")
    then have c1: "calls s1 = calls s @ [(aid, query_for aid)]" by (rule process_query_calls)
    show ?thesis
    proof (cases out)
      case (Inl e)
      with Cons.prems Some pq c1 show ?thesis by auto
    next
      case (Inr response)
      with Cons.prems Some pq
      have "query_round c rest query_for context_for
              (responses @ [to_agent_response aid response (clock s1)]) s1 = (outcome, s')"
        by simp
      from Cons.IH [OF this] c1 show ?thesis by auto
    qed
  qed
qed

lemma query_round_first:
  assumes "query_round c (aid # rest) query_for context_for responses s = (outcome, s')"
      and "active_agents c aid \<noteq> None"
  shows "\<exists>more. calls s' = calls s @ (aid, query_for aid) # more"
proof -
  from assms(2) obtain agent where ag: "active_agents c aid = Some agent" by auto
  obtain out s1 where pq: "process_query agent aid (query_for aid) (context_for aid) s = (out, s1)"
    by (cases "process_query agent aid (query_for aid) (context_for aid) s")
  then have c1: "calls s1 = calls s @ [(aid, query_for aid)]" by (rule process_query_calls)
  show ?thesis
  proof (cases out)
    case (Inl e)
    with assms(1) ag pq c1 show ?thesis by auto
  next
    case (Inr response)
    with assms(1) ag pq
    have "query_round c rest query_for context_for
            (responses @ [to_agent_response aid response (clock s1)]) s1 = (outcome, s')"
      by simp
    from query_round_grows [OF this] c1 show ?thesis by auto
  qed
qed


lemma sequential_loop_grows:
  "sequential_loop c task ids responses current_context s = (outcome, s')
     \<Longrightarrow> \<exists>more. calls s' = calls s @ more"
proof (induction ids arbitrary: responses current_context s)
  case Nil
  then show ?case by simp
next
  case (Cons p rest)
  obtain i aid where p: "p = (i, aid)" by (cases p)
  show ?case
  proof (cases "active_agents c aid")
    case None
    with Cons.prems p show ?thesis by simp
  next
    case (Some agent)
    define ctx where "ctx = Sequential_context (i + 1) (length (agents task))
                   (if responses \<noteq> [] then last_n 3 responses else [])"
    obtain out s1 where pq: "process_query agent aid current_context ctx s = (out, s1)"
      by (cases "process_query agent aid current_context ctx s")
    then have c1: "calls s1 = calls s @ [(aid, current_context)]" by (rule process_query_calls)
    show ?thesis
    proof (cases out)
      case (Inl e)
      with Cons.prems Some pq c1 p show ?thesis by (auto simp: ctx_def)
    next
      case (Inr response)
      with Cons.prems Some pq p
      have "sequential_loop c task rest
                    (responses @ [to_agent_response aid response (clock s1)])
                    (query task @ nl @ nl @ ''Previous agent ('' @ aid @ '') responded: ''
                       @ take 200 (rd_content response) @ ''...'') s1 = (outcome, s')"
        by (simp add: ctx_def)
      from Cons.IH [OF this] c1 show ?thesis by auto
    qed
  qed
qed


lemma sequential_loop_first:
  assumes "sequential_loop c task ((i, aid) # rest) responses current_context s = (outcome, s')"
      and "active_agents c aid \<noteq> None"
  shows "\<exists>more. calls s' = calls s @ (aid, current_context) # more"
proof -
  from assms(2) obtain agent where ag: "active_agents c aid = Some agent" by auto
  define ctx where "ctx = Sequential_context (i + 1) (length (agents task))
                 (if responses \<noteq> [] then last_n 3 responses else [])"
  obtain out s1 where pq: "process_query agent aid current_context ctx s = (out, s1)"
    by (cases "process_query agent aid current_context ctx s")
  then have c1: "calls s1 = calls s @ [(aid, current_context)]" by (rule process_query_calls)
  show ?thesis
  proof (cases out)
    case (Inl e)
    with assms(1) ag pq c1 show ?thesis by (auto simp: ctx_def)
  next
    case (Inr response)
    with assms(1) ag pq
    have "sequential_loop c task rest
                  (responses @ [to_agent_response aid response (clock s1)])
                  (query task @ nl @ nl @ ''Previous agent ('' @ aid @ '') responded: ''
                     @ take 200 (rd_content response) @ ''...'') s1 = (outcome, s')"
      by (simp add: ctx_def)
    from sequential_loop_grows [OF this] c1 show ?thesis by auto
  qed
qed

lemma lookup_agents_registered:
  "\<forall>aid \<in> set ids. active_agents c aid \<noteq> None
     \<Longrightarrow> \<exists>found. lookup_agents c ids = Inr found \<and> map fst found = ids"
  by (induction ids) auto

lemma gather_calls:
  "gather agent_tasks q context s = (outcomes, s')
     \<Longrightarrow> calls s' = calls s @ map (\<lambda>t. (fst t, q)) agent_tasks
         \<and> length outcomes = length agent_tasks"
proof (induction agent_tasks arbitrary: s outcomes s')
  case Nil
  then show ?case by simp
next
  case (Cons t rest)
  obtain aid agent where t: "t = (aid, agent)" by (cases t)
  obtain out d s1 where sq: "start_query agent aid q context s = (out, d, s1)"
    by (cases "start_query agent aid q context s")
  then have c1: "calls s1 = calls s @ [(aid, q)]"
    by (auto simp: start_query_def split: prod.splits)
  obtain outs s2 where g: "gather rest q context s1 = (outs, s2)"
    by (cases "gather rest q context s1")
  from Cons.prems t sq g have "s' = s2" and "outcomes = (out, d) # outs" by auto
  with Cons.IH [OF g] c1 t show ?case by auto
qed

lemma wait_for_gather_calls:
  "wait_for_gather agent_tasks q context seconds s = (outcome, s')
     \<Longrightarrow> calls s' = calls s @ map (\<lambda>t. (fst t, q)) agent_tasks"
  by (auto simp: wait_for_gather_def split: prod.splits if_splits dest: gather_calls)

lemma debate_loop_grows:
  "debate_loop c task k initial_responses all_responses s = (outcome, s')
     \<Longrightarrow> \<exists>more. calls s' = calls s @ more"
proof (induction c task k initial_responses all_responses s rule: debate_loop.induct)
  case (1 c task k initial_responses all_responses s)
  note unfolded_prems =
    "1.prems" [unfolded debate_loop.simps [of c task k initial_responses all_responses s]]
  show ?case
  proof (cases "int k < max_iterations task")
    case False
    with unfolded_prems show ?thesis by simp
  next
    case True
    obtain out s1 where dr: "debate_round c task k initial_responses s = (out, s1)"
      by (cases "debate_round c task k initial_responses s")
    then obtain m1 where c1: "calls s1 = calls s @ m1"
      unfolding debate_round_def by (blast dest: query_round_grows)
    show ?thesis
    proof (cases out)
      case (Inl e)
      with unfolded_prems True dr c1 show ?thesis by auto
    next
      case (Inr round_responses)
      show ?thesis
      proof (cases "check_debate_convergence round_responses initial_responses")
        case (Inl e)
        with unfolded_prems True dr c1 Inr show ?thesis by auto
      next
        case cv: (Inr converged)
        show ?thesis
        proof (cases converged)
          case True
          with unfolded_prems \<open>int k < max_iterations task\<close> dr c1 Inr cv show ?thesis by auto
        next
          case False
          with unfolded_prems \<open>int k < max_iterations task\<close> dr Inr cv
          have "debate_loop c task (k + 1) round_responses (all_responses @ round_responses) s1
                  = (outcome, s')"
            by simp
          from "1.IH" [OF \<open>int k < max_iterations task\<close> dr [symmetric] Inr cv False this] c1
          show ?thesis by auto
        qed
      qed
    qed
  qed
qed


lemma consensus_loop_grows:
  "consensus_loop c task k current_responses all_responses s = (outcome, s')
     \<Longrightarrow> \<exists>more. calls s' = calls s @ more"
proof (induction c task k current_responses all_responses s rule: consensus_loop.induct)
  case (1 c task k current_responses all_responses s)
  note unfolded_prems =
    "1.prems" [unfolded consensus_loop.simps [of c task k current_responses all_responses s]]
  show ?case
  proof (cases "int k < max_iterations task")
    case False
    with unfolded_prems show ?thesis by simp
  next
    case True
    show ?thesis
    proof (cases "calculate_consensus_score current_responses")
      case (Inl e)
      with unfolded_prems True show ?thesis by simp
    next
      case (Inr score)
      show ?thesis
      proof (cases "score > 8 / 10")
        case high: True
        with unfolded_prems True Inr show ?thesis by simp
      next
        case low: False
        obtain out s1 where cr:
          "consensus_round c task k score current_responses s = (out, s1)"
          by (cases "consensus_round c task k score current_responses s")
        then obtain m1 where c1: "calls s1 = calls s @ m1"
          unfolding consensus_round_def by (blast dest: query_round_grows)
        show ?thesis
        proof (cases out)
          case (Inl e)
          with unfolded_prems True Inr low cr c1 show ?thesis by auto
        next
          case rr: (Inr round_responses)
          with unfolded_prems True Inr low cr
          have "consensus_loop c task (k + 1) round_responses
                  (all_responses @ round_responses) s1 = (outcome, s')"
            by simp
          from "1.IH" [OF True Inr low cr [symmetric] rr this] c1
          show ?thesis by auto
        qed
      qed
    qed
  qed
qed

lemma sequential_first:
  assumes "agents task = aid # rest" and "active_agents c aid \<noteq> None"
  shows "\<exists>more. calls (snd (sequential_collaboration c task s)) = calls s @ (aid, query task) # more"
proof -
  obtain out s1 where l:
    "sequential_loop c task ((0, aid) # enumerate 1 rest) [] (query task) s = (out, s1)"
    by (cases "sequential_loop c task ((0, aid) # enumerate 1 rest) [] (query task) s")
  from sequential_loop_first [OF l assms(2)] obtain more
    where "calls s1 = calls s @ (aid, query task) # more" by blast
  with l assms(1) show ?thesis
    unfolding sequential_collaboration_def
    by (auto simp del: sequential_loop.simps split: sum.splits prod.splits)
qed

lemma parallel_first:
  assumes "agents task = aid # rest" and "\<forall>a \<in> set (agents task). active_agents c a \<noteq> None"
  shows "\<exists>more. calls (snd (parallel_collaboration c task s)) = calls s @ (aid, query task) # more"
proof -
  from lookup_agents_registered [OF assms(2)] obtain found
    where f: "lookup_agents c (agents task) = Inr found" "map fst found = agents task" by blast
  obtain out s1 where w:
    "wait_for_gather found (query task) (Parallel_context (length (agents task))) (timeout task) s
       = (out, s1)"
    by (cases "wait_for_gather found (query task) (Parallel_context (length (agents task)))
                 (timeout task) s")
  from wait_for_gather_calls [OF w]
  have "calls s1 = calls s @ map (\<lambda>a. (a, query task)) (map fst found)"
    by (simp add: comp_def)
  with f assms(1) have "calls s1 = calls s @ (aid, query task) # map (\<lambda>a. (a, query task)) rest"
    by simp
  with f w show ?thesis
    unfolding parallel_collaboration_def
    by (auto simp: Let_def split: sum.splits prod.splits)
qed

lemma debate_first:
  assumes "agents task = aid # rest" and "active_agents c aid \<noteq> None"
  shows "\<exists>more. calls (snd (debate_collaboration c task s)) = calls s @ (aid, query task) # more"
proof -
  obtain out s1 where q:
    "query_round c (aid # rest) (\<lambda>aid. query task)
       (\<lambda>aid. Debate_initial_context 1 (length (agents task))) [] s = (out, s1)"
    by (cases "query_round c (aid # rest) (\<lambda>aid. query task)
       (\<lambda>aid. Debate_initial_context 1 (length (agents task))) [] s")
  from query_round_first [OF q assms(2)] obtain more
    where c1: "calls s1 = calls s @ (aid, query task) # more" by blast
  show ?thesis
  proof (cases out)
    case (Inl e)
    with q c1 assms(1) show ?thesis
      unfolding debate_collaboration_def by (simp del: query_round.simps)
  next
    case (Inr initial_responses)
    obtain out2 s2 where l: "debate_loop c task 1 initial_responses initial_responses s1 = (out2, s2)"
      by (cases "debate_loop c task 1 initial_responses initial_responses s1")
    from debate_loop_grows [OF l] c1 obtain more2
      where "calls s2 = calls s @ (aid, query task) # more2" by auto
    with Inr q l assms(1) show ?thesis
      unfolding debate_collaboration_def debate_rounds_from_def
      by (auto simp del: query_round.simps split: sum.splits prod.splits)
  qed
qed

lemma consensus_first:
  assumes "agents task = aid # rest" and "active_agents c aid \<noteq> None"
  shows "\<exists>more. calls (snd (consensus_collaboration c task s)) = calls s @ (aid, query task) # more"
proof -
  obtain out s1 where q:
    "query_round c (aid # rest) (\<lambda>aid. query task)
       (\<lambda>aid. Consensus_initial_context 1 ''work towards consensus'') [] s = (out, s1)"
    by (cases "query_round c (aid # rest) (\<lambda>aid. query task)
       (\<lambda>aid. Consensus_initial_context 1 ''work towards consensus'') [] s")
  from query_round_first [OF q assms(2)] obtain more
    where c1: "calls s1 = calls s @ (aid, query task) # more" by blast
  show ?thesis
  proof (cases out)
    case (Inl e)
    with q c1 assms(1) show ?thesis
      unfolding consensus_collaboration_def by (simp del: query_round.simps)
  next
    case (Inr current_responses)
    obtain out2 s2 where l: "consensus_loop c task 1 current_responses current_responses s1 = (out2, s2)"
      by (cases "consensus_loop c task 1 current_responses current_responses s1")
    from consensus_loop_grows [OF l] c1 obtain more2
      where "calls s2 = calls s @ (aid, query task) # more2" by auto
    with Inr q l assms(1) show ?thesis
      unfolding consensus_collaboration_def
      by (auto simp del: query_round.simps split: sum.splits prod.splits)
  qed
qed

lemma start_collaboration_registered:
  assumes "\<forall>aid \<in> set (agents task). active_agents c aid \<noteq> None"
  shows "fst (start_collaboration c task s) = fst (run_protocol (entered c task) task s)"
    and "snd (snd (start_collaboration c task s)) = snd (run_protocol (entered c task) task s)"
proof -
  from assms have "filter (\<lambda>aid. active_agents c aid = None) (agents task) = []"
    by (auto simp: filter_empty_conv)
  then show "fst (start_collaboration c task s) = fst (run_protocol (entered c task) task s)"
    and "snd (snd (start_collaboration c task s)) = snd (run_protocol (entered c task) task s)"
    by (auto simp: start_collaboration_def run_protocol_def entered_def Let_def
             split: prod.splits sum.splits)
qed

lemma run_protocol_first:
  assumes "agents task = aid # rest" and "\<forall>a \<in> set (agents task). active_agents c a \<noteq> None"
  shows "\<exists>more. calls (snd (run_protocol c task s)) = calls s @ (aid, query task) # more"
proof -
  from assms have "active_agents c aid \<noteq> None" by simp
  with assms show ?thesis
    unfolding run_protocol_def
    by (cases "mode task")
       (simp_all add: sequential_first parallel_first debate_first consensus_first)
qed

section \<open>Scores\<close>

lemma real_sum_list_length:
  "sum_list (map (\<lambda>r. real (length (content r))) rs)
     = real (sum_list (map (\<lambda>r. length (content r)) rs))"
  by (induction rs) auto

text \<open>
  Claim C8. For a non-empty list of responses the collaboration quality is
  \<open>min(1, 0.6 * average confidence + 0.4 * diversity)\<close>, where the diversity is the number
  of distinct 100-character prefixes of the contents over the number of responses; for
  two responses with confidences 0.9 and 0.7 and distinct prefixes it is 0.88.
\<close>

theorem collaboration_quality_formula:
  "(responses \<noteq> [] \<longrightarrow>
      calculate_collaboration_quality responses =
        min 1 (6 / 10 * (sum_list (map confidence responses) / real (length responses))
               + 4 / 10 * (real (card ((\<lambda>r. take 100 (content r)) ` set responses))
                            / real (length responses))))
   \<and> (confidence r1 = 9 / 10 \<and> confidence r2 = 7 / 10
        \<and> take 100 (content r1) \<noteq> take 100 (content r2) \<longrightarrow>
      calculate_collaboration_quality [r1, r2] = 88 / 100)"
proof (intro conjI impI)
  assume "responses \<noteq> []"
  then show "calculate_collaboration_quality responses =
        min 1 (6 / 10 * (sum_list (map confidence responses) / real (length responses))
               + 4 / 10 * (real (card ((\<lambda>r. take 100 (content r)) ` set responses))
                            / real (length responses)))"
    by (simp add: calculate_collaboration_quality_def Let_def min.commute mult.commute)
next
  assume h: "confidence r1 = 9 / 10 \<and> confidence r2 = 7 / 10
        \<and> take 100 (content r1) \<noteq> take 100 (content r2)"
  then have c: "card {take 100 (content r1), take 100 (content r2)} = 2" by simp
  from h have r1: "confidence r1 = 9 / 10" and r2: "confidence r2 = 7 / 10" by simp_all
  show "calculate_collaboration_quality [r1, r2] = 88 / 100"
    unfolding calculate_collaboration_quality_def Let_def using c
    by (simp add: r1 r2)
qed

theorem collaboration_quality_formula_witness:
  "[example_response ''p1'' ''A'' (9 / 10), example_response ''p2'' ''B'' (7 / 10)] \<noteq> []
   \<and> calculate_collaboration_quality
        [example_response ''p1'' ''A'' (9 / 10), example_response ''p2'' ''B'' (7 / 10)] = 88 / 100"
  using collaboration_quality_formula
    [of "[example_response ''p1'' ''A'' (9 / 10), example_response ''p2'' ''B'' (7 / 10)]"
        "example_response ''p1'' ''A'' (9 / 10)" "example_response ''p2'' ''B'' (7 / 10)"]
  by (simp add: example_response_def)

section \<open>Validation and bookkeeping of \<^verbatim>\<open>start_collaboration\<close>\<close>

text \<open>
  Claim C3. A task with at least one participant id that is not registered fails with the
  \<^verbatim>\<open>ValueError\<close> "Agents not available", which carries every unresolved id of the task
  (in task order), not only the first. The environment is returned as it was: no agent
  has been queried.
\<close>

theorem missing_agents_rejected:
  assumes "\<exists>aid \<in> set (agents task). active_agents c aid = None"
  shows "start_collaboration c task s =
           (Inl (ValueError (Agents_not_available
                   (filter (\<lambda>aid. active_agents c aid = None) (agents task)))),
            entered c task, s)"
proof -
  from assms have "filter (\<lambda>aid. active_agents c aid = None) (agents task) \<noteq> []"
    by (auto simp: filter_empty_conv)
  then show ?thesis by (simp add: start_collaboration_def entered_def Let_def)
qed

theorem missing_agents_rejected_witness:
  "(\<exists>aid \<in> set (agents (example_task [''p1'', ''zz'', ''p2'', ''yy''] PARALLEL)).
      active_agents example_coordinator aid = None)
   \<and> fst (start_collaboration example_coordinator
             (example_task [''p1'', ''zz'', ''p2'', ''yy''] PARALLEL) example_env)
       = Inl (ValueError (Agents_not_available [''zz'', ''yy'']))
   \<and> calls (snd (snd (start_collaboration example_coordinator
             (example_task [''p1'', ''zz'', ''p2'', ''yy''] PARALLEL) example_env))) = []"
proof -
  have h: "\<exists>aid \<in> set (agents (example_task [''p1'', ''zz'', ''p2'', ''yy''] PARALLEL)).
             active_agents example_coordinator aid = None"
    by (simp add: example_task_def example_coordinator_def)
  show ?thesis
    using h missing_agents_rejected [OF h, of example_env]
    by (simp add: example_task_def example_coordinator_def example_env_def)
qed

text \<open>
  Claim C10. When \<^verbatim>\<open>start_collaboration\<close> raises, whatever the error, the task is
  still in \<^verbatim>\<open>active_collaborations\<close> afterwards; it is removed only when the call
  returns a result.
\<close>

theorem failed_task_stays_active:
  "(fst (start_collaboration c task s) = Inl e \<longrightarrow>
      get_active_collaborations (fst (snd (start_collaboration c task s))) (task_id task) = Some task)
   \<and> (fst (start_collaboration c task s) = Inr r \<longrightarrow>
      get_active_collaborations (fst (snd (start_collaboration c task s))) (task_id task) = None)"
  by (auto simp: start_collaboration_def get_active_collaborations_def Let_def
           split: prod.splits sum.splits CollaborationMode.splits)

theorem failed_task_stays_active_witness:
  "fst (start_collaboration example_coordinator (example_task [''p3'', ''p1''] SEQUENTIAL) example_env)
     = Inl (AgentError ''boom'')
   \<and> get_active_collaborations
        (fst (snd (start_collaboration example_coordinator
                     (example_task [''p3'', ''p1''] SEQUENTIAL) example_env))) ''t1''
       = Some (example_task [''p3'', ''p1''] SEQUENTIAL)
   \<and> \<not> isl (fst (start_collaboration example_coordinator
                     (example_task [''p1'', ''p2''] SEQUENTIAL) example_env))
   \<and> get_active_collaborations
        (fst (snd (start_collaboration example_coordinator
                     (example_task [''p1'', ''p2''] SEQUENTIAL) example_env))) ''t1''
       = None"
proof -
  have f: "fst (start_collaboration example_coordinator
                  (example_task [''p3'', ''p1''] SEQUENTIAL) example_env)
             = Inl (AgentError ''boom'')"
    by (simp add: run_defs example_defs)
  have g: "\<not> isl (fst (start_collaboration example_coordinator
                     (example_task [''p1'', ''p2''] SEQUENTIAL) example_env))"
    by (simp add: run_defs example_defs)
  then have g': "fst (start_collaboration example_coordinator
                     (example_task [''p1'', ''p2''] SEQUENTIAL) example_env)
        = Inr (projr (fst (start_collaboration example_coordinator
                     (example_task [''p1'', ''p2''] SEQUENTIAL) example_env)))"
    by simp
  have t: "task_id (example_task ids m) = ''t1''" for ids m
    by (simp add: example_task_def)
  from f g g'
    failed_task_stays_active [of example_coordinator "example_task [''p3'', ''p1''] SEQUENTIAL"
        example_env "AgentError ''boom''"]
    failed_task_stays_active [of example_coordinator "example_task [''p1'', ''p2''] SEQUENTIAL"
        example_env _ "projr (fst (start_collaboration example_coordinator
                     (example_task [''p1'', ''p2''] SEQUENTIAL) example_env))"]
  show ?thesis by (simp only: t simp_thms)
qed

section \<open>Registering an id twice\<close>

text \<open>
  Against claim C9 as stated: registering a second handle under the id \<open>p1\<close> of the
  example coordinator does not fail; the new handle replaces the old one.
\<close>

theorem register_duplicate_counterexample:
  "active_agents example_coordinator ''p1'' = Some (ok_agent ''A'' (9 / 10) 5)
   \<and> active_agents (register_agent example_coordinator ''p1'' (failing_agent ''new'' 0)) ''p1''
       = Some (failing_agent ''new'' 0)
   \<and> failing_agent ''new'' 0 \<noteq> ok_agent ''A'' (9 / 10) 5"
proof -
  have "failing_agent ''new'' 0 [] (Parallel_context 0) ()
          \<noteq> ok_agent ''A'' (9 / 10) 5 [] (Parallel_context 0) ()"
    by (simp add: failing_agent_def ok_agent_def)
  then have "failing_agent ''new'' 0 \<noteq> ok_agent ''A'' (9 / 10) 5" by metis
  then show ?thesis by (simp add: example_coordinator_def register_agent_def)
qed

text \<open>
  Claim C9, amended. \<^verbatim>\<open>MultiAgentCoordinator.register_agent\<close> on a registered id
  replaces the handle and changes nothing else; \<^verbatim>\<open>AgentCoordinator.register_agent\<close>
  on a registered id returns the id and leaves the coordinator as it was. Neither raises.
\<close>

theorem register_duplicate_behaviour:
  "(active_agents c aid = Some old \<longrightarrow>
      active_agents (register_agent c aid agent) aid = Some agent
      \<and> (\<forall>other. other \<noteq> aid \<longrightarrow>
            active_agents (register_agent c aid agent) other = active_agents c other)
      \<and> active_collaborations (register_agent c aid agent) = active_collaborations c)
   \<and> (paper_data ''id'' = Some pid \<and> ac_active_agents ac pid = Some old' \<longrightarrow>
      coordinator_register_agent create_agent ac paper_data = (Inr pid, ac))"
  by (simp add: register_agent_def coordinator_register_agent_def)

theorem register_duplicate_behaviour_witness:
  "active_agents example_coordinator ''p1'' = Some (ok_agent ''A'' (9 / 10) 5)
   \<and> active_agents (register_agent example_coordinator ''p1'' (failing_agent ''new'' 0)) ''p1''
       = Some (failing_agent ''new'' 0)
   \<and> [''id'' \<mapsto> ''paper1''] ''id'' = Some ''paper1''
   \<and> ac_active_agents \<lparr>ac_active_agents = [''paper1'' \<mapsto> (1::nat)],
                        ac_agent_relationships = Map.empty\<rparr> ''paper1'' = Some 1
   \<and> coordinator_register_agent (\<lambda>d. 2)
        \<lparr>ac_active_agents = [''paper1'' \<mapsto> (1::nat)], ac_agent_relationships = Map.empty\<rparr>
        [''id'' \<mapsto> ''paper1'']
       = (Inr ''paper1'',
          \<lparr>ac_active_agents = [''paper1'' \<mapsto> (1::nat)], ac_agent_relationships = Map.empty\<rparr>)"
proof -
  have a: "active_agents example_coordinator ''p1'' = Some (ok_agent ''A'' (9 / 10) 5)"
    by (simp add: example_coordinator_def)
  have b: "[''id'' \<mapsto> ''paper1''] ''id'' = Some ''paper1''" by simp
  have d: "ac_active_agents \<lparr>ac_active_agents = [''paper1'' \<mapsto> (1::nat)],
                        ac_agent_relationships = Map.empty\<rparr> ''paper1'' = Some 1" by simp
  from a b d
    register_duplicate_behaviour
      [of example_coordinator "''p1''" "ok_agent ''A'' (9 / 10) 5" "failing_agent ''new'' 0"
          "[''id'' \<mapsto> ''paper1'']" "''paper1''"
          "\<lparr>ac_active_agents = [''paper1'' \<mapsto> (1::nat)], ac_agent_relationships = Map.empty\<rparr>"
          1 "\<lambda>d. 2"]
  show ?thesis by blast
qed

section \<open>The number of participants\<close>

lemma validate_agents_suitable:
  "\<forall>aid \<in> set ids. \<exists>a. repository aid = Some a \<and> is_suitable_for_collaboration a
     \<Longrightarrow> \<exists>more. validate_agents repository ids found = Inr (found @ more)
                \<and> length more = length ids"
proof (induction ids arbitrary: found)
  case Nil
  then show ?case by simp
next
  case (Cons aid rest)
  then obtain a where a: "repository aid = Some a" "is_suitable_for_collaboration a" by auto
  from Cons.prems have "\<forall>aid \<in> set rest. \<exists>a. repository aid = Some a \<and> is_suitable_for_collaboration a"
    by simp
  from Cons.IH [OF this, of "found @ [a]"]
  obtain more where "validate_agents repository rest (found @ [a]) = Inr (found @ a # more)"
    "length more = length rest" by auto
  with a show ?case by auto
qed

text \<open>
  Against claim C2 as stated: a sequential task with the single registered participant
  \<open>p1\<close> returns a result, and \<open>p1\<close> has been queried.
\<close>

theorem participant_count_counterexample:
  "length (agents (example_task [''p1''] SEQUENTIAL)) < 2
   \<and> \<not> isl (fst (start_collaboration example_coordinator
                     (example_task [''p1''] SEQUENTIAL) example_env))
   \<and> calls (snd (snd (start_collaboration example_coordinator
                         (example_task [''p1''] SEQUENTIAL) example_env)))
       = [(''p1'', ''Compare approach X'')]"
  by (simp add: run_defs example_defs)

text \<open>
  Claim C2, amended. The rule on the number of participants is the one of
  \<^verbatim>\<open>orchestrate_collaboration\<close>: with every agent found and suitable, fewer than 2 or
  more than 5 agents raise a \<^verbatim>\<open>ValueError\<close>, and nothing is published.
  \<^verbatim>\<open>start_collaboration\<close> has no such rule: with every participant registered the
  task goes to the protocol of its mode whatever the number of participants, and a task
  with at least one participant has its first participant queried with the task's query.
\<close>

theorem participant_count_rule:
  "((\<forall>aid \<in> set agent_ids. \<exists>a. repository aid = Some a \<and> is_suitable_for_collaboration a)
      \<and> (length agent_ids < 2 \<or> length agent_ids > 5) \<longrightarrow>
      orchestrate_collaboration repository agent_ids task_text m now events
        = (Inl (ValueError (if length agent_ids < 2 then At_least_2_agents
                            else Maximum_5_agents)), events))
   \<and> ((\<forall>aid \<in> set (agents task). active_agents c aid \<noteq> None) \<longrightarrow>
        fst (start_collaboration c task s) = fst (run_protocol (entered c task) task s)
        \<and> (\<forall>aid rest. agents task = aid # rest \<longrightarrow>
              (\<exists>more. calls (snd (snd (start_collaboration c task s)))
                        = calls s @ (aid, query task) # more)))"
proof (intro conjI impI allI)
  assume h: "(\<forall>aid \<in> set agent_ids. \<exists>a. repository aid = Some a \<and> is_suitable_for_collaboration a)
      \<and> (length agent_ids < 2 \<or> length agent_ids > 5)"
  then obtain found where "validate_agents repository agent_ids [] = Inr found"
    "length found = length agent_ids"
    using validate_agents_suitable [of agent_ids repository "[]"] by auto
  with h show "orchestrate_collaboration repository agent_ids task_text m now events
        = (Inl (ValueError (if length agent_ids < 2 then At_least_2_agents
                            else Maximum_5_agents)), events)"
    by (auto simp: orchestrate_collaboration_def)
next
  assume "\<forall>aid \<in> set (agents task). active_agents c aid \<noteq> None"
  then show "fst (start_collaboration c task s) = fst (run_protocol (entered c task) task s)"
    by (rule start_collaboration_registered)
next
  fix aid rest
  assume r: "\<forall>aid \<in> set (agents task). active_agents c aid \<noteq> None"
    and a: "agents task = aid # rest"
  from r have r': "\<forall>a \<in> set (agents task). active_agents (entered c task) a \<noteq> None"
    by (simp add: entered_def)
  from run_protocol_first [OF a r', of s] start_collaboration_registered(2) [OF r, of s]
  show "\<exists>more. calls (snd (snd (start_collaboration c task s)))
                        = calls s @ (aid, query task) # more"
    by simp
qed

theorem participant_count_rule_witness:
  "[''a1'' \<mapsto> example_domain_agent] ''a1'' = Some example_domain_agent
   \<and> is_suitable_for_collaboration example_domain_agent
   \<and> length [''a1''] < 2
   \<and> orchestrate_collaboration [''a1'' \<mapsto> example_domain_agent] [''a1''] ''gap_analysis''
        SEQUENTIAL ''20240101_000000'' []
       = (Inl (ValueError At_least_2_agents), [])
   \<and> agents (example_task [''p1''] SEQUENTIAL) = [''p1'']
   \<and> active_agents example_coordinator ''p1'' \<noteq> None
   \<and> (\<exists>more. calls (snd (snd (start_collaboration example_coordinator
                                  (example_task [''p1''] SEQUENTIAL) example_env)))
                = calls example_env @ (''p1'', query (example_task [''p1''] SEQUENTIAL)) # more)"
proof -
  have a: "[''a1'' \<mapsto> example_domain_agent] ''a1'' = Some example_domain_agent
             \<and> is_suitable_for_collaboration example_domain_agent"
    by (simp add: example_domain_agent_def is_suitable_for_collaboration_def is_active_def
        is_experienced_def has_capability_def)
  have d: "agents (example_task [''p1''] SEQUENTIAL) = [''p1'']"
    by (simp add: example_defs)
  have b: "active_agents example_coordinator ''p1'' \<noteq> None"
    by (simp add: example_defs)
  from a b d
    participant_count_rule [of "[''a1'']" "[''a1'' \<mapsto> example_domain_agent]" "''gap_analysis''"
      SEQUENTIAL "''20240101_000000''" "[]" "example_task [''p1''] SEQUENTIAL"
      example_coordinator example_env]
  show ?thesis by auto
qed

section \<open>An agent's exception in the sequential protocol\<close>

lemma sequential_loop_append:
  "sequential_loop c task (xs @ ys) responses prompt s =
     (case sequential_loop c task xs responses prompt s of
        (Inl e, s') \<Rightarrow> (Inl e, s')
      | (Inr (responses', prompt'), s') \<Rightarrow> sequential_loop c task ys responses' prompt' s')"
proof (induction xs arbitrary: responses prompt s)
  case Nil
  then show ?case by simp
next
  case (Cons p xs)
  obtain i aid where p: "p = (i, aid)" by (cases p)
  show ?case
  proof (cases "active_agents c aid")
    case None
    then show ?thesis by (simp add: p)
  next
    case (Some agent)
    define ctx where "ctx = Sequential_context (i + 1) (length (agents task))
                   (if responses \<noteq> [] then last_n 3 responses else [])"
    obtain out s1 where pq: "process_query agent aid prompt ctx s = (out, s1)"
      by (cases "process_query agent aid prompt ctx s")
    show ?thesis
    proof (cases out)
      case (Inl e)
      with Some pq show ?thesis by (simp add: p ctx_def)
    next
      case (Inr response)
      with Some pq show ?thesis by (simp add: p ctx_def Cons.IH)
    qed
  qed
qed

text \<open>
  Against claim C7 as stated: in the sequential task over \<open>p1\<close>, \<open>p3\<close>, \<open>p2\<close>, where only
  \<open>p3\<close> raises, the call fails with the exception of \<open>p3\<close>, and \<open>p2\<close> is never queried.
\<close>

theorem sequential_failure_counterexample:
  "fst (start_collaboration example_coordinator
          (example_task [''p1'', ''p3'', ''p2''] SEQUENTIAL) example_env)
     = Inl (AgentError ''boom'')
   \<and> map fst (calls (snd (snd (start_collaboration example_coordinator
          (example_task [''p1'', ''p3'', ''p2''] SEQUENTIAL) example_env))))
     = [''p1'', ''p3'']"
  by (simp add: run_defs example_defs)

text \<open>
  Claim C7, amended. In SEQUENTIAL mode the exception of an agent is not caught: when the
  agents before it have answered and the agent raises, \<^verbatim>\<open>start_collaboration\<close> raises
  that exception (the task stays in \<^verbatim>\<open>active_collaborations\<close>) and the last call made
  is the one to the failing agent: the agents after it are not queried.
\<close>

theorem sequential_failure_propagates:
  assumes "mode task = SEQUENTIAL"
      and "\<forall>a \<in> set (agents task). active_agents c a \<noteq> None"
      and "agents task = before @ aid # later"
      and "sequential_loop (entered c task) task (enumerate 0 before) [] (query task) s
             = (Inr (responses, prompt), s1)"
      and "active_agents c aid = Some agent"
      and "process_query agent aid prompt
             (Sequential_context (length before + 1) (length (agents task))
                (if responses \<noteq> [] then last_n 3 responses else [])) s1
             = (Inl e, s2)"
  shows "start_collaboration c task s = (Inl e, entered c task, s2)
         \<and> calls s2 = calls s1 @ [(aid, prompt)]"
proof -
  have en: "enumerate 0 (agents task)
          = enumerate 0 before @ (length before, aid) # enumerate (Suc (length before)) later"
    by (simp add: assms(3) enumerate_append_eq)
  have ag: "active_agents (entered c task) aid = Some agent"
    using assms(5) by (simp add: entered_def)
  have "sequential_loop (entered c task) task (enumerate 0 (agents task)) [] (query task) s
          = (Inl e, s2)"
    unfolding en sequential_loop_append
    using assms(4,6) ag by (simp add: Let_def)
  then have sc: "sequential_collaboration (entered c task) task s = (Inl e, s2)"
    by (simp add: sequential_collaboration_def)
  from assms(2) have "filter (\<lambda>aid. active_agents c aid = None) (agents task) = []"
    by (auto simp: filter_empty_conv)
  with sc assms(1) have "start_collaboration c task s = (Inl e, entered c task, s2)"
    by (simp add: start_collaboration_def entered_def Let_def)
  moreover from assms(6) have "calls s2 = calls s1 @ [(aid, prompt)]"
    by (rule process_query_calls)
  ultimately show ?thesis by simp
qed


theorem sequential_failure_propagates_witness:
  "mode (example_task [''p1'', ''p3'', ''p2''] SEQUENTIAL) = SEQUENTIAL
   \<and> agents (example_task [''p1'', ''p3'', ''p2''] SEQUENTIAL) = [''p1''] @ ''p3'' # [''p2'']
   \<and> active_agents example_coordinator ''p3'' = Some (failing_agent ''boom'' 1)
   \<and> fst (start_collaboration example_coordinator
             (example_task [''p1'', ''p3'', ''p2''] SEQUENTIAL) example_env)
       = Inl (AgentError ''boom'')
   \<and> map fst (calls (snd (snd (start_collaboration example_coordinator
             (example_task [''p1'', ''p3'', ''p2''] SEQUENTIAL) example_env))))
       = [''p1'', ''p3'']"
proof -
  let ?T = "example_task [''p1'', ''p3'', ''p2''] SEQUENTIAL"
  let ?r = "\<lparr>agent_id = ''p1'', content = ''A'', confidence = 9 / 10, metadata = [],
             timestamp = 5\<rparr>"
  let ?prompt = "query ?T @ nl @ nl @ ''Previous agent ('' @ ''p1'' @ '') responded: ''
                   @ take 200 ''A'' @ ''...''"
  let ?s1 = "\<lparr>world = (), calls = [(''p1'', query ?T)], clock = 5\<rparr>"
  let ?s2 = "\<lparr>world = (), calls = [(''p1'', query ?T), (''p3'', ?prompt)], clock = 6\<rparr>"
  have h1: "mode ?T = SEQUENTIAL" by (simp add: example_defs)
  have h2: "\<forall>a \<in> set (agents ?T). active_agents example_coordinator a \<noteq> None"
    by (simp add: example_defs)
  have h3: "agents ?T = [''p1''] @ ''p3'' # [''p2'']" by (simp add: example_defs)
  have h4: "sequential_loop (entered example_coordinator ?T) ?T (enumerate 0 [''p1'']) []
              (query ?T) example_env = (Inr ([?r], ?prompt), ?s1)"
    by (simp add: run_defs example_defs)
  have h5: "active_agents example_coordinator ''p3'' = Some (failing_agent ''boom'' 1)"
    by (simp add: example_defs)
  have h6: "process_query (failing_agent ''boom'' 1) ''p3'' ?prompt
             (Sequential_context (length [''p1''] + 1) (length (agents ?T))
                (if [?r] \<noteq> [] then last_n 3 [?r] else [])) ?s1
             = (Inl (AgentError ''boom''), ?s2)"
    by (simp add: run_defs example_defs)
  from sequential_failure_propagates [OF h1 h2 h3 h4 h5 h6] h1 h3 h5
  show ?thesis by simp
qed

section \<open>Failures in the parallel protocol\<close>












section \<open>Convergence of a debate\<close>











section \<open>The consensus score and the early exit\<close>

lemma consensus_score_formula:
  assumes "mean_length responses \<noteq> 0"
  shows "calculate_consensus_score responses =
           Inr (min 1 (max 0 (1 - variance_length responses / (mean_length responses) ^ 2)))"
proof (cases "length responses < 2")
  case True
  from assms have "responses \<noteq> []" by (auto simp: mean_length_def)
  with True obtain r where r: "responses = [r]" by (cases responses) auto
  with assms have "variance_length responses = 0"
    by (simp add: variance_length_def mean_length_def)
  with True show ?thesis by (simp add: calculate_consensus_score_def)
next
  case False
  then show ?thesis using assms
    by (simp add: calculate_consensus_score_def Let_def mean_length_def variance_length_def
        real_sum_list_length comp_def min.commute)
qed

lemma consensus_score_range:
  "calculate_consensus_score responses = Inr x \<Longrightarrow> 0 \<le> x \<and> x \<le> 1"
  by (auto simp: calculate_consensus_score_def Let_def split: if_splits)

lemma consensus_loop_stops:
  assumes "calculate_consensus_score current = Inr x" and "x > 8 / 10"
  shows "consensus_loop c task k current all_responses s = (Inr (k, current, all_responses), s)"
  using assms by (simp add: consensus_loop.simps [of c task k])

lemma consensus_result_score:
  assumes "calculate_consensus_score current = Inr x"
  shows "\<exists>r. consensus_result task k current all_responses = Inr r
             \<and> total_iterations r = k \<and> consensus_score r = x
             \<and> consensus_achieved r = Some (x > 8 / 10)"
  using assms
  by (simp add: consensus_result_def synthesize_consensus_responses_def Let_def)

lemma consensus_achieved_iff:
  assumes "consensus_collaboration c task s = (Inr r, s')"
  shows "consensus_achieved r = Some (consensus_score r > 8 / 10)"
proof -
  from assms obtain k current all_responses
    where "consensus_result task k current all_responses = Inr r"
    unfolding consensus_collaboration_def
    by (auto split: prod.splits sum.splits)
  then show ?thesis
    by (auto simp: consensus_result_def split: sum.splits)
qed

text \<open>
  Claim C6. The consensus score of a round's responses is
  \<open>max(0, 1 - variance / mean^2)\<close> of their character lengths, clamped to \<open>[0, 1]\<close>
  (a quotient, so the mean is not 0), and every score lies in \<open>[0, 1]\<close>. In CONSENSUS
  mode a score above 0.8 at the head of the loop ends the loop before another round is
  asked for. A task whose first round scores above 0.8 returns a result with one
  iteration and \<open>consensus_achieved = True\<close>, with only the first round's queries made;
  and in every result \<open>consensus_achieved\<close> is exactly \<open>consensus_score > 0.8\<close>.
\<close>

theorem consensus_score_and_early_exit:
  "(mean_length responses \<noteq> 0 \<longrightarrow>
      calculate_consensus_score responses =
        Inr (min 1 (max 0 (1 - variance_length responses / (mean_length responses) ^ 2))))
   \<and> (calculate_consensus_score responses = Inr x \<longrightarrow> 0 \<le> x \<and> x \<le> 1)
   \<and> (calculate_consensus_score current = Inr x \<and> x > 8 / 10 \<longrightarrow>
        consensus_loop c task k current all_responses s = (Inr (k, current, all_responses), s))
   \<and> (query_round c (agents task) (\<lambda>aid. query task)
          (\<lambda>aid. Consensus_initial_context 1 ''work towards consensus'') [] s0 = (Inr current, s)
        \<and> calculate_consensus_score current = Inr x \<and> x > 8 / 10 \<longrightarrow>
      (\<exists>r. consensus_collaboration c task s0 = (Inr r, s)
            \<and> total_iterations r = 1 \<and> consensus_achieved r = Some True
            \<and> consensus_score r = x))
   \<and> (consensus_collaboration c task s0 = (Inr r, s') \<longrightarrow>
        consensus_achieved r = Some (consensus_score r > 8 / 10))"
proof (intro conjI impI)
  assume "mean_length responses \<noteq> 0"
  then show "calculate_consensus_score responses =
        Inr (min 1 (max 0 (1 - variance_length responses / (mean_length responses) ^ 2)))"
    by (rule consensus_score_formula)
next
  assume "calculate_consensus_score responses = Inr x"
  then show "0 \<le> x" and "x \<le> 1" by (simp_all add: consensus_score_range)
next
  assume "calculate_consensus_score current = Inr x \<and> x > 8 / 10"
  then show "consensus_loop c task k current all_responses s
               = (Inr (k, current, all_responses), s)"
    by (simp add: consensus_loop_stops)
next
  assume h: "query_round c (agents task) (\<lambda>aid. query task)
          (\<lambda>aid. Consensus_initial_context 1 ''work towards consensus'') [] s0 = (Inr current, s)
        \<and> calculate_consensus_score current = Inr x \<and> x > 8 / 10"
  then have l: "consensus_loop c task 1 current current s = (Inr (1, current, current), s)"
    by (simp add: consensus_loop_stops)
  from h consensus_result_score [of current x task 1 current]
  obtain r where "consensus_result task 1 current current = Inr r"
    "total_iterations r = 1" "consensus_score r = x" "consensus_achieved r = Some True"
    by auto
  with h l show "\<exists>r. consensus_collaboration c task s0 = (Inr r, s)
            \<and> total_iterations r = 1 \<and> consensus_achieved r = Some True
            \<and> consensus_score r = x"
    by (simp add: consensus_collaboration_def)
next
  assume "consensus_collaboration c task s0 = (Inr r, s')"
  then show "consensus_achieved r = Some (consensus_score r > 8 / 10)"
    by (rule consensus_achieved_iff)
qed

theorem consensus_score_and_early_exit_witness:
  "mean_length [example_response ''p1'' ''ab'' 1, example_response ''p2'' ''abcd'' 1] \<noteq> 0
   \<and> calculate_consensus_score [example_response ''p1'' ''ab'' 1, example_response ''p2'' ''abcd'' 1]
       = Inr (8 / 9)
   \<and> \<not> isl (fst (consensus_collaboration example_coordinator
                    (example_task [''p1'', ''p2''] CONSENSUS) example_env))
   \<and> total_iterations (projr (fst (consensus_collaboration example_coordinator
                    (example_task [''p1'', ''p2''] CONSENSUS) example_env))) = 1
   \<and> consensus_achieved (projr (fst (consensus_collaboration example_coordinator
                    (example_task [''p1'', ''p2''] CONSENSUS) example_env))) = Some True
   \<and> map fst (calls (snd (consensus_collaboration example_coordinator
                    (example_task [''p1'', ''p2''] CONSENSUS) example_env)))
       = [''p1'', ''p2'']"
proof -
  let ?T = "example_task [''p1'', ''p2''] CONSENSUS"
  let ?rs = "[example_response ''p1'' ''ab'' 1, example_response ''p2'' ''abcd'' 1]"
  let ?first = "query_round example_coordinator (agents ?T) (\<lambda>aid. query ?T)
                  (\<lambda>aid. Consensus_initial_context 1 ''work towards consensus'') [] example_env"
  have m: "mean_length ?rs \<noteq> 0" by (simp add: mean_length_def example_response_def)
  have v: "min 1 (max 0 (1 - variance_length ?rs / (mean_length ?rs) ^ 2)) = 8 / 9"
    by (simp add: mean_length_def variance_length_def example_response_def power2_eq_square)
  have "\<not> isl (fst ?first)" by (simp add: run_defs example_defs)
  then have h1: "?first = (Inr (projr (fst ?first)), snd ?first)"
    by (metis prod.collapse sum.collapse(2))
  have h2: "calculate_consensus_score (projr (fst ?first)) = Inr 1"
    by (simp add: run_defs example_defs)
  have cs: "map fst (calls (snd ?first)) = [''p1'', ''p2'']"
    by (simp add: run_defs example_defs)
  note t = consensus_score_and_early_exit
         [of ?rs 1 "projr (fst ?first)" example_coordinator ?T 1 "[]" "snd ?first"
             example_env _ _]
  from t m v have sc: "calculate_consensus_score ?rs = Inr (8 / 9)" by simp
  from t [THEN conjunct2, THEN conjunct2, THEN conjunct2, THEN conjunct1] h1 h2
  obtain r where "consensus_collaboration example_coordinator ?T example_env = (Inr r, snd ?first)"
    "total_iterations r = 1" "consensus_achieved r = Some True"
    by auto
  with m sc cs show ?thesis by simp
qed

section \<open>The timeout of a task\<close>

























end
